theory Spec2Isabelle
  imports Complex_Main "HOL-Library.Multiset" "HOL-Library.Sublist"
    "HOL-Library.Char_ord" "HOL-Library.List_Lexorder"
begin

section \<open>CivicTrack backend: distance evaluation and issue filtering\<close>

text \<open>
  The development embeds the parts of \<^verbatim>\<open>server.js\<close> that decide which issues a
  request sees: \<^verbatim>\<open>getDistance\<close>, the handler of \<^verbatim>\<open>GET /api/issues\<close> (the
  specification's \<open>selectVisible\<close>), the handler of \<^verbatim>\<open>GET /api/admin/issues\<close>
  (\<open>selectFlagged\<close>) and the handler of \<^verbatim>\<open>GET /api/admin/analytics\<close>
  (\<open>categoryCounts\<close>).

  Conventions of the model.
  \<^item> The \<^verbatim>\<open>issues\<close> table is the list of its rows in storage order. A \<^verbatim>\<open>SELECT\<close>
    without \<^verbatim>\<open>ORDER BY\<close> is a scan of that list that keeps the rows satisfying the
    \<^verbatim>\<open>WHERE\<close> clause.
  \<^item> A JavaScript number is a \<open>jsnum\<close>: \<open>NaN\<close>, an infinity, or a finite double
    given by its value. Arithmetic is that of IEEE 754 doubles: a result is rounded,
    overflows to an infinity, and \<open>NaN\<close> propagates. The rounding function and the
    values of \<^verbatim>\<open>Math.sin\<close>, \<^verbatim>\<open>Math.cos\<close>, \<^verbatim>\<open>Math.sqrt\<close> and \<^verbatim>\<open>Math.atan2\<close> on
    finite arguments are parameters of the model (a \<open>machine\<close>): the language leaves
    the last digits of these functions to the engine. Signed zeros are not modelled.
  \<^item> A query parameter is a \<open>string option\<close>: \<open>None\<close> is \<^verbatim>\<open>undefined\<close> (the
    parameter is not in the query string), \<open>Some s\<close> is the string received,
    possibly empty.
  \<^item> In a row, \<^verbatim>\<open>lat\<close> and \<^verbatim>\<open>lng\<close> are finite numbers and \<^verbatim>\<open>flags\<close> is an
    integer, never \<^verbatim>\<open>NULL\<close>: a row is inserted with the column's default 0, and the
    only update is \<^verbatim>\<open>flags = flags + 1\<close>.
  \<^item> A failing database call (the handlers' status 500) is not modelled.
\<close>

subsection \<open>Rows of the issues table\<close>

record issue =
  issue_id :: string
  title :: string
  description :: string
  category :: string
  status :: string
  lat :: real
  lng :: real
  userId :: string
  flags :: int
  createdAt :: string

subsection \<open>JavaScript numbers\<close>

datatype jsnum = NaN | NegInf | Fin real | PosInf

text \<open>
  What the engine and the floating-point unit contribute: \<open>rnd\<close> rounds a real in the
  range of the doubles to a double; the other fields are the \<^verbatim>\<open>Math\<close> functions on the
  arguments where the language does not fix the result (\<^verbatim>\<open>Math.sqrt\<close> on a finite
  number that is not negative, \<^verbatim>\<open>Math.atan2\<close> on two numbers that are not \<open>NaN\<close>).
\<close>

record machine =
  rnd :: "real \<Rightarrow> real"
  Math_sin :: "real \<Rightarrow> real"
  Math_cos :: "real \<Rightarrow> real"
  Math_sqrt :: "real \<Rightarrow> real"
  Math_atan2 :: "jsnum \<Rightarrow> jsnum \<Rightarrow> real"

text \<open>
  Rounding to nearest: a real of magnitude \<open>2\<^sup>1\<^sup>0\<^sup>2\<^sup>4 - 2\<^sup>9\<^sup>7\<^sup>0\<close> or more (the largest
  double plus half a unit in its last place) becomes an infinity.
\<close>

definition ovf :: real where
  "ovf = 2 ^ 1024 - 2 ^ 970"

definition round_to :: "machine \<Rightarrow> real \<Rightarrow> jsnum" where
  "round_to m x =
     (if ovf \<le> x then PosInf else if x \<le> - ovf then NegInf else Fin (rnd m x))"

fun jneg :: "jsnum \<Rightarrow> jsnum" where
  "jneg NaN = NaN"
| "jneg NegInf = PosInf"
| "jneg (Fin x) = Fin (- x)"
| "jneg PosInf = NegInf"

text \<open>The operators \<^verbatim>\<open>+\<close>, \<^verbatim>\<open>-\<close>, \<^verbatim>\<open>*\<close> and \<^verbatim>\<open>/\<close> on numbers.\<close>

fun jadd :: "machine \<Rightarrow> jsnum \<Rightarrow> jsnum \<Rightarrow> jsnum" where
  "jadd m NaN _ = NaN"
| "jadd m _ NaN = NaN"
| "jadd m (Fin x) (Fin y) = round_to m (x + y)"
| "jadd m PosInf NegInf = NaN"
| "jadd m NegInf PosInf = NaN"
| "jadd m PosInf _ = PosInf"
| "jadd m NegInf _ = NegInf"
| "jadd m _ PosInf = PosInf"
| "jadd m _ NegInf = NegInf"

fun jsub :: "machine \<Rightarrow> jsnum \<Rightarrow> jsnum \<Rightarrow> jsnum" where
  "jsub m NaN _ = NaN"
| "jsub m _ NaN = NaN"
| "jsub m (Fin x) (Fin y) = round_to m (x - y)"
| "jsub m PosInf PosInf = NaN"
| "jsub m NegInf NegInf = NaN"
| "jsub m PosInf _ = PosInf"
| "jsub m NegInf _ = NegInf"
| "jsub m _ PosInf = NegInf"
| "jsub m _ NegInf = PosInf"

fun jmul :: "machine \<Rightarrow> jsnum \<Rightarrow> jsnum \<Rightarrow> jsnum" where
  "jmul m NaN _ = NaN"
| "jmul m _ NaN = NaN"
| "jmul m (Fin x) (Fin y) = round_to m (x * y)"
| "jmul m (Fin x) i = (if x = 0 then NaN else if 0 < x then i else jneg i)"
| "jmul m i (Fin y) = (if y = 0 then NaN else if 0 < y then i else jneg i)"
| "jmul m PosInf i = i"
| "jmul m NegInf i = jneg i"

text \<open>A zero divisor is taken as \<open>+0\<close>.\<close>

fun jdiv :: "machine \<Rightarrow> jsnum \<Rightarrow> jsnum \<Rightarrow> jsnum" where
  "jdiv m NaN _ = NaN"
| "jdiv m _ NaN = NaN"
| "jdiv m (Fin x) (Fin y) =
     (if y = 0 then (if x = 0 then NaN else if 0 < x then PosInf else NegInf)
      else round_to m (x / y))"
| "jdiv m (Fin x) _ = Fin 0"
| "jdiv m i (Fin y) = (if 0 \<le> y then i else jneg i)"
| "jdiv m _ _ = NaN"

text \<open>The comparison \<^verbatim>\<open>x <= y\<close> of two numbers: false as soon as one is \<open>NaN\<close>.\<close>

fun jsle :: "jsnum \<Rightarrow> jsnum \<Rightarrow> bool" where
  "jsle NaN _ = False"
| "jsle _ NaN = False"
| "jsle NegInf _ = True"
| "jsle _ PosInf = True"
| "jsle (Fin x) (Fin y) = (x \<le> y)"
| "jsle PosInf _ = False"
| "jsle _ NegInf = False"


subsection \<open>The Math functions used\<close>

text \<open>\<^verbatim>\<open>Math.PI\<close> is the double \<^verbatim>\<open>0x1.921fb54442d18p+1\<close>.\<close>

definition Math_PI :: jsnum where
  "Math_PI = Fin (884279719003555 / 281474976710656)"

text \<open>\<^verbatim>\<open>Math.sin\<close> and \<^verbatim>\<open>Math.cos\<close>: \<open>NaN\<close> on \<open>NaN\<close> and on an infinity.\<close>

fun jsin :: "machine \<Rightarrow> jsnum \<Rightarrow> jsnum" where
  "jsin m (Fin x) = Fin (Math_sin m x)"
| "jsin m _ = NaN"

fun jcos :: "machine \<Rightarrow> jsnum \<Rightarrow> jsnum" where
  "jcos m (Fin x) = Fin (Math_cos m x)"
| "jcos m _ = NaN"

text \<open>\<^verbatim>\<open>Math.sqrt\<close>: \<open>NaN\<close> on \<open>NaN\<close> and on a negative number, \<open>+\<infinity>\<close> on \<open>+\<infinity>\<close>.\<close>

fun jsqrt :: "machine \<Rightarrow> jsnum \<Rightarrow> jsnum" where
  "jsqrt m NaN = NaN"
| "jsqrt m NegInf = NaN"
| "jsqrt m (Fin x) = (if x < 0 then NaN else Fin (Math_sqrt m x))"
| "jsqrt m PosInf = PosInf"

text \<open>\<^verbatim>\<open>Math.atan2(y, x)\<close>: \<open>NaN\<close> when an argument is \<open>NaN\<close>, a finite angle otherwise.\<close>

fun jatan2 :: "machine \<Rightarrow> jsnum \<Rightarrow> jsnum \<Rightarrow> jsnum" where
  "jatan2 m NaN _ = NaN"
| "jatan2 m _ NaN = NaN"
| "jatan2 m y x = Fin (Math_atan2 m y x)"

subsection \<open>getDistance\<close>

definition getDistance :: "machine \<Rightarrow> jsnum \<Rightarrow> jsnum \<Rightarrow> jsnum \<Rightarrow> jsnum \<Rightarrow> jsnum" where
  "getDistance m lat1 lng1 lat2 lng2 =
     (let R = Fin 6371;
          dLat = jdiv m (jmul m (jsub m lat2 lat1) Math_PI) (Fin 180);
          dLng = jdiv m (jmul m (jsub m lng2 lng1) Math_PI) (Fin 180);
          a = jadd m
                (jmul m (jsin m (jdiv m dLat (Fin 2))) (jsin m (jdiv m dLat (Fin 2))))
                (jmul m
                   (jmul m
                      (jmul m (jcos m (jdiv m (jmul m lat1 Math_PI) (Fin 180)))
                              (jcos m (jdiv m (jmul m lat2 Math_PI) (Fin 180))))
                      (jsin m (jdiv m dLng (Fin 2))))
                   (jsin m (jdiv m dLng (Fin 2))));
          c = jmul m (Fin 2) (jatan2 m (jsqrt m a) (jsqrt m (jsub m (Fin 1) a)))
      in jmul m R c)"

subsection \<open>GET /api/issues\<close>

record query =
  q_status :: "string option"
  q_category :: "string option"
  q_distance :: "string option"
  q_lat :: "string option"
  q_lng :: "string option"

datatype api_error = Invalid_status | Invalid_category

text \<open>The conditions joined by \<^verbatim>\<open>AND\<close> in a \<^verbatim>\<open>WHERE\<close> clause, with their parameters.\<close>

datatype cond = Flags_lt int | Flags_ge int | Status_eq string | Category_eq string

fun holds :: "cond \<Rightarrow> issue \<Rightarrow> bool" where
  "holds (Flags_lt n) i = (flags i < n)"
| "holds (Flags_ge n) i = (n \<le> flags i)"
| "holds (Status_eq s) i = (status i = s)"
| "holds (Category_eq c) i = (category i = c)"

definition db_all :: "cond list \<Rightarrow> issue list \<Rightarrow> issue list" where
  "db_all cs rows = filter (\<lambda>i. list_all (\<lambda>c. holds c i) cs) rows"

text \<open>A string parameter is truthy when it is defined and not empty.\<close>

definition truthy :: "string option \<Rightarrow> bool" where
  "truthy p = (case p of None \<Rightarrow> False | Some s \<Rightarrow> s \<noteq> [])"

text \<open>The guard \<^verbatim>\<open>p && p !== 'all'\<close>, returning the value that passed it.\<close>

definition selected :: "string option \<Rightarrow> string option" where
  "selected p =
     (case p of None \<Rightarrow> None
      | Some s \<Rightarrow> if s \<noteq> [] \<and> s \<noteq> ''all'' then Some s else None)"

definition validStatuses :: "string list" where
  "validStatuses = [''Reported'', ''In Progress'', ''Resolved'']"

definition validCategories :: "string list" where
  "validCategories =
     [''Roads'', ''Lighting'', ''Water Supply'', ''Cleanliness'', ''Public Safety'',
      ''Obstructions'']"

definition status_clause :: "string option \<Rightarrow> api_error + cond list" where
  "status_clause p =
     (case selected p of None \<Rightarrow> Inr []
      | Some s \<Rightarrow> if s \<in> set validStatuses then Inr [Status_eq s] else Inl Invalid_status)"

definition category_clause :: "string option \<Rightarrow> api_error + cond list" where
  "category_clause p =
     (case selected p of None \<Rightarrow> Inr []
      | Some c \<Rightarrow> if c \<in> set validCategories then Inr [Category_eq c] else Inl Invalid_category)"

text \<open>
  The query text and its parameters as the handler builds them: \<^verbatim>\<open>flags < 3\<close> first,
  then the status clause, then the category clause; an invalid status is reported before
  the category is looked at.
\<close>

definition build_query :: "query \<Rightarrow> api_error + cond list" where
  "build_query q =
     (case status_clause (q_status q) of
        Inl e \<Rightarrow> Inl e
      | Inr cs \<Rightarrow>
          (case category_clause (q_category q) of
             Inl e \<Rightarrow> Inl e
           | Inr cc \<Rightarrow> Inr (Flags_lt 3 # cs @ cc)))"

text \<open>
  \<^verbatim>\<open>parseFloat(distance || 5)\<close>. \<^verbatim>\<open>parseFloat\<close> is a built-in of the language and a
  parameter of the model; \<^verbatim>\<open>parseFloat(5)\<close> is 5.
\<close>

definition radius :: "(string \<Rightarrow> jsnum) \<Rightarrow> string option \<Rightarrow> jsnum" where
  "radius parseFloat d =
     (case d of None \<Rightarrow> Fin 5
      | Some s \<Rightarrow> if s = [] then Fin 5 else parseFloat s)"

text \<open>The predicate of \<^verbatim>\<open>rows.filter\<close>.\<close>

definition near :: "machine \<Rightarrow> (string \<Rightarrow> jsnum) \<Rightarrow> query \<Rightarrow> issue \<Rightarrow> bool" where
  "near m parseFloat q i =
     (case (q_lat q, q_lng q) of
        (Some la, Some lo) \<Rightarrow>
          if la = [] \<or> lo = [] then True
          else jsle (getDistance m (parseFloat la) (parseFloat lo) (Fin (lat i)) (Fin (lng i)))
                    (radius parseFloat (q_distance q))
      | _ \<Rightarrow> True)"

definition get_api_issues ::
    "machine \<Rightarrow> (string \<Rightarrow> jsnum) \<Rightarrow> query \<Rightarrow> issue list \<Rightarrow> api_error + issue list" where
  "get_api_issues m parseFloat q rows =
     (case build_query q of
        Inl e \<Rightarrow> Inl e
      | Inr cs \<Rightarrow> Inr (filter (near m parseFloat q) (db_all cs rows)))"

subsection \<open>GET /api/admin/issues and GET /api/admin/analytics\<close>

definition get_admin_issues :: "issue list \<Rightarrow> issue list" where
  "get_admin_issues rows = db_all [Flags_ge 3] rows"

text \<open>
  \<^verbatim>\<open>SELECT category, COUNT(*) as count FROM issues GROUP BY category\<close>: one result row
  for each category that some row has, with the number of rows in its group. SQLite
  forms the groups by sorting the rows on the column, so the groups come in the order
  of their categories, compared byte by byte.
\<close>

definition get_admin_analytics :: "issue list \<Rightarrow> (string \<times> nat) list" where
  "get_admin_analytics rows =
     map (\<lambda>c. (c, length (filter (\<lambda>i. category i = c) rows)))
         (sort (remdups (map category rows)))"

subsection \<open>Concrete data for the examples\<close>

definition mk_issue :: "string \<Rightarrow> string \<Rightarrow> string \<Rightarrow> real \<Rightarrow> real \<Rightarrow> int \<Rightarrow> issue" where
  "mk_issue n c s la lo f =
     \<lparr>issue_id = n, title = ''t'', description = ''d'', category = c, status = s,
      lat = la, lng = lo, userId = ''u'', flags = f, createdAt = ''2025-01-01''\<rparr>"

definition no_filter :: query where
  "no_filter = \<lparr>q_status = None, q_category = None, q_distance = None,
                q_lat = None, q_lng = None\<rparr>"

definition i_near :: issue where
  "i_near = mk_issue ''a'' ''Roads'' ''Reported'' 0 0 0"

definition i_far :: issue where
  "i_far = mk_issue ''b'' ''Lighting'' ''Resolved'' 0 180 1"

definition i_spam :: issue where
  "i_spam = mk_issue ''c'' ''Roads'' ''Reported'' 0 0 3"

definition rows0 :: "issue list" where
  "rows0 = [i_near, i_far, i_spam]"

definition q_origin :: query where
  "q_origin = no_filter\<lparr>q_lat := Some ''0'', q_lng := Some ''0''\<rparr>"

text \<open>A fragment of \<^verbatim>\<open>parseFloat\<close>, enough for the examples.\<close>

definition parse_example :: "string \<Rightarrow> jsnum" where
  "parse_example s =
     (if s = ''0'' then Fin 0 else if s = ''5'' then Fin 5 else if s = ''30000'' then Fin 30000
      else if s = ''Infinity'' then PosInf else NaN)"

text \<open>
  A machine for the examples. It does not round, and its functions are the real ones,
  but for \<^verbatim>\<open>Math.sin(Math.PI / 2)\<close>, which is 1 in doubles. On the arguments that the
  examples reach (0, 1 and \<^verbatim>\<open>Math.PI / 2\<close>) doubles give the same sines, cosines and
  roots.
\<close>

definition atan2 :: "real \<Rightarrow> real \<Rightarrow> real" where
  "atan2 y x =
     (if 0 < x then arctan (y / x)
      else if x < 0 then (if 0 \<le> y then arctan (y / x) + pi else arctan (y / x) - pi)
      else if 0 < y then pi / 2
      else if y < 0 then - (pi / 2)
      else 0)"

fun atan2_ext :: "jsnum \<Rightarrow> jsnum \<Rightarrow> real" where
  "atan2_ext (Fin y) (Fin x) = atan2 y x"
| "atan2_ext (Fin y) PosInf = 0"
| "atan2_ext (Fin y) NegInf = (if 0 \<le> y then pi else - pi)"
| "atan2_ext PosInf (Fin x) = pi / 2"
| "atan2_ext NegInf (Fin x) = - (pi / 2)"
| "atan2_ext PosInf PosInf = pi / 4"
| "atan2_ext PosInf NegInf = 3 * pi / 4"
| "atan2_ext NegInf PosInf = - (pi / 4)"
| "atan2_ext NegInf NegInf = - (3 * pi / 4)"
| "atan2_ext _ _ = 0"

definition m_example :: machine where
  "m_example =
     \<lparr>rnd = (\<lambda>x. x),
      Math_sin = (\<lambda>x. if x = 884279719003555 / 562949953421312 then 1 else sin x),
      Math_cos = cos,
      Math_sqrt = sqrt,
      Math_atan2 = atan2_ext\<rparr>"

section \<open>Properties\<close>

subsection \<open>Auxiliary facts\<close>

lemma build_query_flags:
  "build_query q = Inr cs \<Longrightarrow> Flags_lt 3 \<in> set cs"
  by (auto simp: build_query_def split: sum.splits)

lemma db_all_holds:
  "i \<in> set (db_all cs rows) \<Longrightarrow> c \<in> set cs \<Longrightarrow> holds c i"
  by (auto simp: db_all_def list_all_iff)

text \<open>The rows that the query built for a request selects.\<close>

lemma build_query_rows:
  assumes "build_query q = Inr cs"
  shows "db_all cs rows =
     filter (\<lambda>i. flags i < 3 \<and>
                  (\<forall>s. selected (q_status q) = Some s \<longrightarrow> status i = s) \<and>
                  (\<forall>c. selected (q_category q) = Some c \<longrightarrow> category i = c)) rows"
proof -
  from assms obtain ss cc where ss: "status_clause (q_status q) = Inr ss"
    and cc: "category_clause (q_category q) = Inr cc" and cs: "cs = Flags_lt 3 # ss @ cc"
    by (auto simp: build_query_def split: sum.splits)
  from ss have hs: "list_all (\<lambda>c. holds c i) ss \<longleftrightarrow>
      (\<forall>s. selected (q_status q) = Some s \<longrightarrow> status i = s)" for i
    by (auto simp: status_clause_def split: option.splits if_splits)
  from cc have hc: "list_all (\<lambda>c. holds c i) cc \<longleftrightarrow>
      (\<forall>c. selected (q_category q) = Some c \<longrightarrow> category i = c)" for i
    by (auto simp: category_clause_def split: option.splits if_splits)
  show ?thesis
    by (simp add: db_all_def cs hs hc)
qed

lemma get_api_issues_Inr:
  "build_query q = Inr cs \<Longrightarrow>
   get_api_issues m parseFloat q rows = Inr (filter (near m parseFloat q) (db_all cs rows))"
  by (simp add: get_api_issues_def)

lemma build_query_distance:
  "build_query (q\<lparr>q_distance := d\<rparr>) = build_query q"
  by (simp add: build_query_def cong: sum.case_cong)

lemma jsle_trans: "jsle a b \<Longrightarrow> jsle b c \<Longrightarrow> jsle a c"
  by (cases a; cases b; cases c) auto

lemma near_mono:
  assumes "jsle (radius parseFloat (q_distance q)) (radius parseFloat d')"
    and "near m parseFloat q i"
  shows "near m parseFloat (q\<lparr>q_distance := d'\<rparr>) i"
  using assms by (auto simp: near_def split: option.splits if_splits intro: jsle_trans)

lemma subseq_filter_mono:
  "(\<And>x. x \<in> set xs \<Longrightarrow> P x \<Longrightarrow> Q x) \<Longrightarrow> subseq (filter P xs) (filter Q xs)"
proof -
  assume h: "\<And>x. x \<in> set xs \<Longrightarrow> P x \<Longrightarrow> Q x"
  have "filter P xs = filter P (filter Q xs)"
    using h by (auto intro: filter_cong)
  then show ?thesis by (metis subseq_filter_left)
qed

lemmas example_defs =
  i_near_def i_far_def i_spam_def rows0_def q_origin_def mk_issue_def no_filter_def
  parse_example_def get_api_issues_def build_query_def status_clause_def
  category_clause_def selected_def validStatuses_def validCategories_def db_all_def
  near_def radius_def truthy_def

subsection \<open>Facts about getDistance\<close>

lemma round_to_Fin:
  "\<bar>x\<bar> < 2 ^ 1000 \<Longrightarrow> round_to m x = Fin (rnd m x)"
  by (auto simp: round_to_def ovf_def)

text \<open>Two values of the distance on the machine of the examples.\<close>

lemma m_example_simps:
  "rnd m_example x = x"
  "Math_sin m_example x = (if x = 884279719003555 / 562949953421312 then 1 else sin x)"
  "Math_cos m_example = cos"
  "Math_sqrt m_example = sqrt"
  "Math_atan2 m_example = atan2_ext"
  by (simp_all add: m_example_def)

lemma round_to_example:
  "\<bar>x\<bar> < 2 ^ 1000 \<Longrightarrow> round_to m_example x = Fin x"
  by (simp add: round_to_Fin m_example_simps)

lemma getDistance_example_same:
  "getDistance m_example (Fin 0) (Fin 0) (Fin 0) (Fin 0) = Fin 0"
  by (simp add: getDistance_def Math_PI_def round_to_example m_example_simps atan2_def)

lemma getDistance_example_far:
  "getDistance m_example (Fin 0) (Fin 0) (Fin 0) (Fin 180) = Fin (6371 * pi)"
proof -
  have b: "\<bar>pi\<bar> < 2 ^ 1000" "\<bar>6371 * pi\<bar> < 2 ^ 1000"
    using pi_less_4 pi_ge_two by simp_all
  have dLat: "jdiv m_example (jmul m_example (jsub m_example (Fin 0) (Fin 0)) Math_PI) (Fin 180)
      = Fin 0"
    by (simp add: Math_PI_def round_to_example)
  have dLng: "jdiv m_example (jmul m_example (jsub m_example (Fin 180) (Fin 0)) Math_PI) (Fin 180)
      = Math_PI"
    by (simp add: Math_PI_def round_to_example)
  have s0: "jsin m_example (jdiv m_example (Fin 0) (Fin 2)) = Fin 0"
    by (simp add: round_to_example m_example_simps)
  have s1: "jsin m_example (jdiv m_example Math_PI (Fin 2)) = Fin 1"
    by (simp add: Math_PI_def round_to_example m_example_simps)
  have c0: "jcos m_example (jdiv m_example (jmul m_example (Fin 0) Math_PI) (Fin 180)) = Fin 1"
    by (simp add: Math_PI_def round_to_example m_example_simps)
  have a: "jadd m_example (jmul m_example (Fin 0) (Fin 0))
             (jmul m_example (jmul m_example (jmul m_example (Fin 1) (Fin 1)) (Fin 1)) (Fin 1))
      = Fin 1"
    by (simp add: round_to_example)
  have c: "jmul m_example (Fin 2)
             (jatan2 m_example (jsqrt m_example (Fin 1))
                (jsqrt m_example (jsub m_example (Fin 1) (Fin 1)))) = Fin pi"
    using b by (simp add: round_to_example m_example_simps atan2_def)
  have r: "jmul m_example (Fin 6371) (Fin pi) = Fin (6371 * pi)"
    using b by (simp add: round_to_example)
  show ?thesis
    unfolding getDistance_def Let_def dLat dLng s0 s1 c0 a c r ..
qed

text \<open>
  A difference that overflows is an infinity, and the sine of what is computed from it
  is \<open>NaN\<close>, on every machine.
\<close>

lemma sub_overflow:
  "jsub m (Fin (- (2 ^ 1023))) (Fin (2 ^ 1023)) = NegInf"
  "jsub m (Fin (2 ^ 1023)) (Fin (- (2 ^ 1023))) = PosInf"
  by (simp_all add: round_to_def ovf_def)

lemma sin_of_infinite_difference:
  assumes "d = NegInf \<or> d = PosInf"
  shows "jsin m (jdiv m (jdiv m (jmul m d Math_PI) (Fin 180)) (Fin 2)) = NaN"
  using assms by (auto simp: Math_PI_def)

lemma getDistance_NaN_dLat:
  assumes "jsin m (jdiv m (jdiv m (jmul m (jsub m lat2 lat1) Math_PI) (Fin 180)) (Fin 2)) = NaN"
  shows "getDistance m lat1 lng1 lat2 lng2 = NaN"
  using assms by (simp add: getDistance_def Let_def)

text \<open>
  Rounding can carry the computed \<open>a\<close> above 1. Then \<open>1 - a\<close> is negative, its root
  is \<open>NaN\<close>, and so is the distance.
\<close>

lemma getDistance_NaN_beyond_one:
  assumes "dLat = jdiv m (jmul m (jsub m lat2 lat1) Math_PI) (Fin 180)"
    and "dLng = jdiv m (jmul m (jsub m lng2 lng1) Math_PI) (Fin 180)"
    and "jadd m
           (jmul m (jsin m (jdiv m dLat (Fin 2))) (jsin m (jdiv m dLat (Fin 2))))
           (jmul m
              (jmul m
                 (jmul m (jcos m (jdiv m (jmul m lat1 Math_PI) (Fin 180)))
                         (jcos m (jdiv m (jmul m lat2 Math_PI) (Fin 180))))
                 (jsin m (jdiv m dLng (Fin 2))))
              (jsin m (jdiv m dLng (Fin 2)))) = Fin a"
    and "jsub m (Fin 1) (Fin a) = Fin b" and "b < 0"
  shows "getDistance m lat1 lng1 lat2 lng2 = NaN"
  using assms by (simp add: getDistance_def Let_def)

subsection \<open>The spam gate\<close>

text \<open>
  C1. Whatever the rows and whatever the request, an issue returned by
  \<^verbatim>\<open>GET /api/issues\<close> has fewer than 3 flags: the condition \<^verbatim>\<open>flags < 3\<close> is in the
  query for every request that is answered with rows.
\<close>

theorem visible_below_threshold:
  "get_api_issues m parseFloat q rows = Inr res \<Longrightarrow> i \<in> set res \<Longrightarrow> flags i < 3"
proof -
  assume r: "get_api_issues m parseFloat q rows = Inr res" and mem: "i \<in> set res"
  from r obtain cs where cs: "build_query q = Inr cs"
    and res: "res = filter (near m parseFloat q) (db_all cs rows)"
    by (auto simp: get_api_issues_def split: sum.splits)
  from mem res have "i \<in> set (db_all cs rows)" by simp
  then have "holds (Flags_lt 3) i"
    using build_query_flags [OF cs] by (rule db_all_holds)
  then show ?thesis by simp
qed

theorem visible_below_threshold_witness:
  "get_api_issues m_example parse_example no_filter rows0 = Inr [i_near, i_far] \<and>
   i_near \<in> set [i_near, i_far] \<and> flags i_near < 3"
proof -
  have r: "get_api_issues m_example parse_example no_filter rows0 = Inr [i_near, i_far]"
    by (simp add: example_defs)
  have m: "i_near \<in> set [i_near, i_far]" by simp
  from visible_below_threshold [OF r m] r m show ?thesis by simp
qed

subsection \<open>Visible and flagged issues\<close>

text \<open>
  C2. For every list of rows, the answer of \<^verbatim>\<open>GET /api/issues\<close> to a request without
  parameters and the answer of \<^verbatim>\<open>GET /api/admin/issues\<close> split the rows: together
  they hold every row as often as the table does, no row is in both, the first holds
  the rows with fewer than 3 flags and the second those with 3 flags or more.
\<close>

theorem visible_flagged_partition:
  "\<exists>vis. get_api_issues m parseFloat no_filter rows = Inr vis \<and>
     mset vis + mset (get_admin_issues rows) = mset rows \<and>
     set vis \<inter> set (get_admin_issues rows) = {} \<and>
     (\<forall>i \<in> set vis. flags i < 3) \<and>
     (\<forall>i \<in> set (get_admin_issues rows). 3 \<le> flags i)"
proof -
  have v: "get_api_issues m parseFloat no_filter rows = Inr (filter (\<lambda>i. flags i < 3) rows)"
    by (simp add: get_api_issues_def build_query_def status_clause_def category_clause_def
        selected_def no_filter_def db_all_def near_def)
  have f: "get_admin_issues rows = filter (\<lambda>i. \<not> flags i < 3) rows"
    by (simp add: get_admin_issues_def db_all_def not_less)
  have "mset (filter (\<lambda>i. flags i < 3) rows) + mset (filter (\<lambda>i. \<not> flags i < 3) rows) = mset rows"
    using multiset_partition [of "mset rows" "\<lambda>i. flags i < 3"] by simp
  then show ?thesis
    unfolding v f by auto
qed

theorem visible_flagged_partition_witness:
  "get_api_issues m_example parse_example no_filter rows0 = Inr [i_near, i_far] \<and>
   get_admin_issues rows0 = [i_spam] \<and>
   mset [i_near, i_far] + mset [i_spam] = mset rows0 \<and>
   set [i_near, i_far] \<inter> set [i_spam] = {}"
proof -
  have r: "get_api_issues m_example parse_example no_filter rows0 = Inr [i_near, i_far]"
    by (simp add: example_defs)
  have a: "get_admin_issues rows0 = [i_spam]"
    by (simp add: get_admin_issues_def example_defs)
  from visible_flagged_partition [of m_example parse_example rows0] r a show ?thesis by simp
qed

subsection \<open>Order of the answer\<close>

text \<open>
  C6. For every list of rows and every request, the issues returned by
  \<^verbatim>\<open>GET /api/issues\<close> are a subsequence of the rows: the survivors keep the relative
  order they have in the table, nothing is sorted again.
\<close>

theorem order_preserved:
  "get_api_issues m parseFloat q rows = Inr res \<Longrightarrow> subseq res rows"
  by (auto simp: get_api_issues_def db_all_def split: sum.splits
      intro: subseq_order.order_trans [OF subseq_filter_left subseq_filter_left])

theorem order_preserved_witness:
  "get_api_issues m_example parse_example no_filter rows0 = Inr [i_near, i_far] \<and>
   subseq [i_near, i_far] rows0"
proof -
  have r: "get_api_issues m_example parse_example no_filter rows0 = Inr [i_near, i_far]"
    by (simp add: example_defs)
  from order_preserved [OF r] r show ?thesis by simp
qed

subsection \<open>Invalid filter values\<close>

text \<open>
  C4. \<^verbatim>\<open>GET /api/issues\<close> answers with an error exactly when the status parameter is
  supplied, is not \<^verbatim>\<open>all\<close> and is not one of Reported, In Progress, Resolved, or the
  category parameter is supplied, is not \<^verbatim>\<open>all\<close> and is not one of the six categories.
  In every other case the answer is the list of the rows that pass the flag threshold,
  the status and category selected, and the radius test. A parameter is supplied when
  it passes the handler's presence test (\<^verbatim>\<open>status && ...\<close>): it is in the query string
  with a value that is not the empty string.
\<close>

theorem invalid_filter_iff:
  "((\<exists>e. get_api_issues m parseFloat q rows = Inl e) \<longleftrightarrow>
      (\<exists>s. q_status q = Some s \<and> s \<noteq> [] \<and> s \<noteq> ''all'' \<and> s \<notin> set validStatuses) \<or>
      (\<exists>c. q_category q = Some c \<and> c \<noteq> [] \<and> c \<noteq> ''all'' \<and> c \<notin> set validCategories)) \<and>
   ((\<forall>e. get_api_issues m parseFloat q rows \<noteq> Inl e) \<longrightarrow>
      get_api_issues m parseFloat q rows =
        Inr (filter (\<lambda>i. flags i < 3 \<and>
                          (\<forall>s. selected (q_status q) = Some s \<longrightarrow> status i = s) \<and>
                          (\<forall>c. selected (q_category q) = Some c \<longrightarrow> category i = c) \<and>
                          near m parseFloat q i) rows))"
proof -
  have st: "(\<exists>e. status_clause (q_status q) = Inl e) \<longleftrightarrow>
      (\<exists>s. q_status q = Some s \<and> s \<noteq> [] \<and> s \<noteq> ''all'' \<and> s \<notin> set validStatuses)"
    by (auto simp: status_clause_def selected_def split: option.splits if_splits)
  have ca: "(\<exists>e. category_clause (q_category q) = Inl e) \<longleftrightarrow>
      (\<exists>c. q_category q = Some c \<and> c \<noteq> [] \<and> c \<noteq> ''all'' \<and> c \<notin> set validCategories)"
    by (auto simp: category_clause_def selected_def split: option.splits if_splits)
  have er: "(\<exists>e. get_api_issues m parseFloat q rows = Inl e) \<longleftrightarrow>
      (\<exists>e. status_clause (q_status q) = Inl e) \<or> (\<exists>e. category_clause (q_category q) = Inl e)"
    by (auto simp: get_api_issues_def build_query_def split: sum.splits)
  have ok: "get_api_issues m parseFloat q rows =
        Inr (filter (\<lambda>i. flags i < 3 \<and>
                          (\<forall>s. selected (q_status q) = Some s \<longrightarrow> status i = s) \<and>
                          (\<forall>c. selected (q_category q) = Some c \<longrightarrow> category i = c) \<and>
                          near m parseFloat q i) rows)"
    if "\<forall>e. get_api_issues m parseFloat q rows \<noteq> Inl e"
  proof -
    from that obtain cs where cs: "build_query q = Inr cs"
      by (auto simp: get_api_issues_def split: sum.splits)
    show ?thesis
      by (auto simp: get_api_issues_Inr [OF cs] build_query_rows [OF cs]
          intro!: filter_cong)
  qed
  show ?thesis
    using er st ca ok by blast
qed

theorem invalid_filter_iff_witness:
  "get_api_issues m_example parse_example (no_filter\<lparr>q_status := Some ''InvalidStatus''\<rparr>) rows0
     = Inl Invalid_status \<and>
   get_api_issues m_example parse_example (no_filter\<lparr>q_status := Some ''Resolved''\<rparr>) rows0
     = Inr [i_far]"
proof -
  have "\<exists>e. get_api_issues m_example parse_example (no_filter\<lparr>q_status := Some ''InvalidStatus''\<rparr>) rows0
     = Inl e"
    using invalid_filter_iff
      [of m_example parse_example "no_filter\<lparr>q_status := Some ''InvalidStatus''\<rparr>" rows0]
    by (simp add: no_filter_def validStatuses_def)
  then have 1: "get_api_issues m_example parse_example (no_filter\<lparr>q_status := Some ''InvalidStatus''\<rparr>) rows0
     = Inl Invalid_status"
    by (simp add: example_defs)
  have "\<forall>e. get_api_issues m_example parse_example (no_filter\<lparr>q_status := Some ''Resolved''\<rparr>) rows0
     \<noteq> Inl e"
    by (simp add: example_defs)
  then have 2: "get_api_issues m_example parse_example (no_filter\<lparr>q_status := Some ''Resolved''\<rparr>) rows0
     = Inr [i_far]"
    using invalid_filter_iff
      [of m_example parse_example "no_filter\<lparr>q_status := Some ''Resolved''\<rparr>" rows0]
    by (simp add: example_defs)
  from 1 2 show ?thesis by simp
qed

subsection \<open>The radius filter\<close>

text \<open>
  C3. Let the request pass the status and category checks, and let \<open>cs\<close> be the
  conditions of its query (flag threshold, status, category). When both origin
  coordinates are supplied, the answer holds exactly the rows selected by \<open>cs\<close>
  (\<open>build_query_rows\<close> says which these are) whose distance from the origin, as
  \<^verbatim>\<open>getDistance\<close> computes it, is at most the radius. The radius is 5 when the distance
  parameter is not supplied and the number read from the parameter when it is. The
  comparison is \<^verbatim>\<open><=\<close>: a row whose distance is a number at most the radius is kept, a
  row at exactly the radius included, and a row beyond it is dropped; a comparison with
  \<open>NaN\<close> is false. When a coordinate is not supplied, the answer holds every row
  selected by \<open>cs\<close>. A parameter is supplied when it passes the handler's presence
  test (\<^verbatim>\<open>!lat || !lng\<close>, \<^verbatim>\<open>distance || 5\<close>), that is, when it is present and not the
  empty string.
\<close>

theorem radius_membership:
  assumes "build_query q = Inr cs"
  shows "\<exists>res. get_api_issues m parseFloat q rows = Inr res \<and>
     (\<forall>la lo. q_lat q = Some la \<and> q_lng q = Some lo \<and> la \<noteq> [] \<and> lo \<noteq> [] \<longrightarrow>
        res = filter (\<lambda>i. jsle (getDistance m (parseFloat la) (parseFloat lo)
                                              (Fin (lat i)) (Fin (lng i)))
                                (radius parseFloat (q_distance q)))
                     (db_all cs rows)) \<and>
     (\<not> truthy (q_lat q) \<or> \<not> truthy (q_lng q) \<longrightarrow> res = db_all cs rows) \<and>
     (\<not> truthy (q_distance q) \<longrightarrow> radius parseFloat (q_distance q) = Fin 5) \<and>
     (\<forall>d. q_distance q = Some d \<and> d \<noteq> [] \<longrightarrow> radius parseFloat (q_distance q) = parseFloat d) \<and>
     (\<forall>la lo x r i. q_lat q = Some la \<and> q_lng q = Some lo \<and> la \<noteq> [] \<and> lo \<noteq> [] \<and>
        getDistance m (parseFloat la) (parseFloat lo) (Fin (lat i)) (Fin (lng i)) = Fin x \<and>
        radius parseFloat (q_distance q) = Fin r \<and> i \<in> set (db_all cs rows) \<longrightarrow>
        (i \<in> set res \<longleftrightarrow> x \<le> r))"
proof -
  have 1: "near m parseFloat q = (\<lambda>i. jsle (getDistance m (parseFloat la) (parseFloat lo)
                                                    (Fin (lat i)) (Fin (lng i)))
                                (radius parseFloat (q_distance q)))"
    if "q_lat q = Some la" "q_lng q = Some lo" "la \<noteq> []" "lo \<noteq> []" for la lo
    using that by (auto simp: near_def)
  have 2: "near m parseFloat q = (\<lambda>i. True)" if "\<not> truthy (q_lat q) \<or> \<not> truthy (q_lng q)"
    using that by (auto simp: near_def truthy_def split: option.splits)
  show ?thesis
  proof (intro exI [of _ "filter (near m parseFloat q) (db_all cs rows)"] conjI allI impI)
    show "get_api_issues m parseFloat q rows = Inr (filter (near m parseFloat q) (db_all cs rows))"
      by (rule get_api_issues_Inr [OF assms])
  qed (auto simp: 1 2 radius_def truthy_def split: option.splits)
qed

theorem radius_membership_witness:
  "build_query q_origin = Inr [Flags_lt 3] \<and>
   get_api_issues m_example parse_example q_origin rows0 = Inr [i_near] \<and>
   get_api_issues m_example parse_example (q_origin\<lparr>q_distance := Some ''0''\<rparr>) rows0
     = Inr [i_near] \<and>
   radius parse_example (q_distance (q_origin\<lparr>q_distance := Some ''30000''\<rparr>)) = Fin 30000 \<and>
   get_api_issues m_example parse_example (q_origin\<lparr>q_distance := Some ''30000''\<rparr>) rows0
     = Inr [i_near, i_far]"
proof -
  have far: "\<not> 6371 * pi \<le> 5" "\<not> 6371 * pi \<le> 0" "6371 * pi \<le> 30000"
    using pi_ge_two pi_less_4 by linarith+
  have z: "get_api_issues m_example parse_example (q_origin\<lparr>q_distance := Some ''0''\<rparr>) rows0
     = Inr [i_near]"
    by (simp add: example_defs getDistance_example_same getDistance_example_far far)
  have h: "build_query q_origin = Inr [Flags_lt 3]"
    by (simp add: example_defs)
  have h': "build_query (q_origin\<lparr>q_distance := Some ''30000''\<rparr>) = Inr [Flags_lt 3]"
    by (simp add: example_defs)
  from radius_membership [OF h, where m = m_example and parseFloat = parse_example
      and rows = rows0]
  obtain res where r: "get_api_issues m_example parse_example q_origin rows0 = Inr res"
    and f: "\<forall>la lo. q_lat q_origin = Some la \<and> q_lng q_origin = Some lo \<and> la \<noteq> [] \<and> lo \<noteq> [] \<longrightarrow>
        res = filter (\<lambda>i. jsle (getDistance m_example (parse_example la) (parse_example lo)
                                              (Fin (lat i)) (Fin (lng i)))
                                (radius parse_example (q_distance q_origin)))
                     (db_all [Flags_lt 3] rows0)"
    by blast
  from f have "res = filter (\<lambda>i. jsle (getDistance m_example (parse_example ''0'')
                                            (parse_example ''0'') (Fin (lat i)) (Fin (lng i)))
                                (radius parse_example (q_distance q_origin)))
                     (db_all [Flags_lt 3] rows0)"
    by (simp add: q_origin_def no_filter_def)
  also have "\<dots> = [i_near]"
    by (simp add: example_defs getDistance_example_same getDistance_example_far far)
  finally have r5: "get_api_issues m_example parse_example q_origin rows0 = Inr [i_near]"
    using r by simp
  from radius_membership [OF h', where m = m_example and parseFloat = parse_example
      and rows = rows0]
  have "\<forall>d. q_distance (q_origin\<lparr>q_distance := Some ''30000''\<rparr>) = Some d \<and> d \<noteq> [] \<longrightarrow>
      radius parse_example (q_distance (q_origin\<lparr>q_distance := Some ''30000''\<rparr>))
        = parse_example d"
    by blast
  then have rad: "radius parse_example (q_distance (q_origin\<lparr>q_distance := Some ''30000''\<rparr>))
      = Fin 30000"
    by (simp add: parse_example_def)
  have w: "get_api_issues m_example parse_example (q_origin\<lparr>q_distance := Some ''30000''\<rparr>) rows0
     = Inr [i_near, i_far]"
    by (simp add: example_defs getDistance_example_same getDistance_example_far far)
  from h r5 z rad w show ?thesis by simp
qed

subsection \<open>Monotonicity in the radius\<close>

text \<open>
  C9. Let two requests differ in the distance parameter only, with the radius of the
  first at most the radius of the second. A row that passes the radius test of the
  first passes that of the second, and the answer to the first is a subsequence of the
  answer to the second (or both are the same error).
\<close>

theorem radius_monotone:
  assumes "jsle (radius parseFloat (q_distance q)) (radius parseFloat d')"
  shows "(near m parseFloat q i \<longrightarrow> near m parseFloat (q\<lparr>q_distance := d'\<rparr>) i) \<and>
    (case get_api_issues m parseFloat q rows of
       Inl e \<Rightarrow> get_api_issues m parseFloat (q\<lparr>q_distance := d'\<rparr>) rows = Inl e
     | Inr xs \<Rightarrow> (\<exists>ys. get_api_issues m parseFloat (q\<lparr>q_distance := d'\<rparr>) rows = Inr ys \<and>
                       subseq xs ys))"
proof
  show "near m parseFloat q i \<longrightarrow> near m parseFloat (q\<lparr>q_distance := d'\<rparr>) i"
    using assms by (blast intro: near_mono)
  show "case get_api_issues m parseFloat q rows of
       Inl e \<Rightarrow> get_api_issues m parseFloat (q\<lparr>q_distance := d'\<rparr>) rows = Inl e
     | Inr xs \<Rightarrow> (\<exists>ys. get_api_issues m parseFloat (q\<lparr>q_distance := d'\<rparr>) rows = Inr ys \<and>
                       subseq xs ys)"
  proof (cases "build_query q")
    case (Inl e)
    then show ?thesis by (simp add: get_api_issues_def build_query_distance)
  next
    case (Inr cs)
    have "subseq (filter (near m parseFloat q) (db_all cs rows))
                 (filter (near m parseFloat (q\<lparr>q_distance := d'\<rparr>)) (db_all cs rows))"
      using assms by (intro subseq_filter_mono near_mono)
    with Inr show ?thesis by (simp add: get_api_issues_def build_query_distance)
  qed
qed

theorem radius_monotone_witness:
  "jsle (radius parse_example (q_distance (q_origin\<lparr>q_distance := Some ''5''\<rparr>)))
        (radius parse_example (Some ''Infinity'')) \<and>
   get_api_issues m_example parse_example (q_origin\<lparr>q_distance := Some ''5''\<rparr>) rows0 = Inr [i_near] \<and>
   get_api_issues m_example parse_example (q_origin\<lparr>q_distance := Some ''Infinity''\<rparr>) rows0
     = Inr [i_near, i_far] \<and>
   subseq [i_near] [i_near, i_far]"
proof -
  have h: "jsle (radius parse_example (q_distance (q_origin\<lparr>q_distance := Some ''5''\<rparr>)))
        (radius parse_example (Some ''Infinity''))"
    by (simp add: example_defs)
  have far: "\<not> 6371 * pi \<le> 5"
    using pi_ge_two by linarith
  have x: "get_api_issues m_example parse_example (q_origin\<lparr>q_distance := Some ''5''\<rparr>) rows0 = Inr [i_near]"
    by (simp add: example_defs getDistance_example_same getDistance_example_far far)
  have y: "get_api_issues m_example parse_example (q_origin\<lparr>q_distance := Some ''Infinity''\<rparr>) rows0
     = Inr [i_near, i_far]"
    by (simp add: example_defs getDistance_example_same getDistance_example_far)
  from radius_monotone [OF h, where m = m_example and i = i_near and rows = rows0] x y h
  show ?thesis by simp
qed

subsection \<open>Category counts\<close>

text \<open>
  C5. For every list of rows, the counts returned by \<^verbatim>\<open>GET /api/admin/analytics\<close> add
  up to the number of rows: every row is counted once, whatever its number of flags,
  and no row is filtered out.
\<close>

theorem analytics_sum:
  "sum_list (map snd (get_admin_analytics rows)) = length rows"
proof -
  have "sum_list (map snd (get_admin_analytics rows)) =
        (\<Sum>c\<leftarrow>sort (remdups (map category rows)). length (filter (\<lambda>i. category i = c) rows))"
    by (simp add: get_admin_analytics_def comp_def)
  also have "\<dots> = (\<Sum>c\<in>set (map category rows). length (filter (\<lambda>i. category i = c) rows))"
    using sum_list_distinct_conv_sum_set [of "sort (remdups (map category rows))"]
    by simp
  also have "\<dots> = (\<Sum>c\<in>set (map category rows). count_list (map category rows) c)"
    by (simp add: count_list_eq_length_filter filter_map comp_def eq_commute)
  also have "\<dots> = length (map category rows)"
    by (rule sum_count_set) simp_all
  finally show ?thesis by simp
qed

text \<open>
  C10. The answer of \<^verbatim>\<open>GET /api/admin/analytics\<close> has an entry only for a category
  that some row has: every count is at least 1, and a category without rows has no
  entry (it is not reported with count 0).
\<close>

theorem analytics_only_present:
  "(\<forall>(c, n) \<in> set (get_admin_analytics rows). 1 \<le> n \<and> c \<in> category ` set rows) \<and>
   (\<forall>c. c \<notin> category ` set rows \<longrightarrow> c \<notin> fst ` set (get_admin_analytics rows))"
proof -
  have "0 < length (filter (\<lambda>i. category i = category r) rows)" if "r \<in> set rows" for r
    using that by (auto simp: length_greater_0_conv filter_empty_conv)
  then show ?thesis
    by (fastforce simp: get_admin_analytics_def Suc_le_eq)
qed

theorem analytics_only_present_witness:
  "get_admin_analytics rows0 = [(''Lighting'', 1), (''Roads'', 2)] \<and>
   (1::nat) \<le> 2 \<and> ''Roads'' \<in> category ` set rows0 \<and>
   ''Water Supply'' \<notin> fst ` set (get_admin_analytics rows0)"
proof -
  have a: "get_admin_analytics rows0 = [(''Lighting'', 1), (''Roads'', 2)]"
    by (simp add: get_admin_analytics_def example_defs)
  have n: "''Water Supply'' \<notin> category ` set rows0"
    by (simp add: example_defs)
  from analytics_only_present [of rows0] a n show ?thesis by auto
qed

subsection \<open>Distances that are not numbers\<close>

text \<open>
  C8. The claim is that \<^verbatim>\<open>getDistance\<close> yields a finite number for all finite
  arguments. It does not: for the finite doubles \<open>2\<^sup>1\<^sup>0\<^sup>2\<^sup>3\<close> and \<open>-2\<^sup>1\<^sup>0\<^sup>2\<^sup>3\<close> as
  latitudes the difference overflows, and the result is \<open>NaN\<close> on every machine. For
  latitudes and longitudes in range the same result arises when rounding carries \<open>a\<close>
  above 1 (\<open>getDistance_NaN_beyond_one\<close>), which the unclamped formula allows for
  points that are nearly antipodal.
\<close>

theorem getDistance_overflow_NaN:
  "getDistance m (Fin (2 ^ 1023)) (Fin 0) (Fin (- (2 ^ 1023))) (Fin 0) = NaN"
proof -
  have "jsin m (jdiv m (jdiv m (jmul m (jsub m (Fin (- (2 ^ 1023))) (Fin (2 ^ 1023))) Math_PI)
                              (Fin 180)) (Fin 2)) = NaN"
    by (rule sin_of_infinite_difference) (rule disjI1, rule sub_overflow)
  then show ?thesis by (rule getDistance_NaN_dLat)
qed


end
